theory Spec2Isabelle
  imports Main "HOL-Library.Char_ord" "HOL-Library.List_Lexorder" "HOL-Library.Sublist"
begin

section \<open>Data model\<close>

text \<open>
  The program under study is \<^verbatim>\<open>simple_sams_api/base.py\<close>: a small HTTP client for the SAMS
  service and three helpers working on one phenopacket, a nested JSON dictionary.

  A Python \<^verbatim>\<open>str\<close> is a \<^typ>\<open>string\<close>, one \<^typ>\<open>char\<close> per code point (code points
  below 256); \<^verbatim>\<open><\<close> on \<^verbatim>\<open>str\<close> is the lexicographic order on code points, which is the
  order of \<^typ>\<open>char list\<close> given by the two imported library theories.

  A dictionary whose keys are known is a record with one optional field per key:
  \<open>None\<close> is an absent key, so that \<^verbatim>\<open>d[k]\<close> on an absent key is the \<^verbatim>\<open>KeyError\<close> of the
  source and \<^verbatim>\<open>d.get(k, default)\<close> is its default. The values have the types the
  service's schema gives them.
\<close>

datatype py_error =
    KeyError string
  | ValueError
  | RuntimeError
  | HTTPError nat
  | OSError
  | RequestException
  | JSONDecodeError

text \<open>A scalar JSON value, as it may stand under the key \<^verbatim>\<open>excluded\<close>.\<close>

datatype jvalue = JNone | JBool bool | JInt int | JStr string

record ontology_class =
  oc_id :: "string option"
  oc_label :: "string option"

record time_element =
  timestamp :: "string option"

record feature =
  f_type :: "ontology_class option"
  f_excluded :: "jvalue option"
  f_onset :: "time_element option"

record disease =
  d_term :: "ontology_class option"
  d_excluded :: "jvalue option"
  d_onset :: "time_element option"

record subject_rec =
  subject_id :: "string option"

record phenopacket =
  subject :: "subject_rec option"
  phenotypicFeatures :: "feature list option"
  diseases :: "disease list option"
  other_fields :: "(string \<times> jvalue) list"

text \<open>
  The helpers read one phenopacket object and write to the module's logger; the onset
  filter also assigns to two keys of the object it was given. The state they run in is
  that object and the warnings logged so far.
\<close>

record state =
  packet :: phenopacket
  warnings :: "string list"

section \<open>Python primitives\<close>

fun bind_err :: "'e + 'a \<Rightarrow> ('a \<Rightarrow> 'e + 'b) \<Rightarrow> 'e + 'b" where
  "bind_err (Inl e) f = Inl e"
| "bind_err (Inr x) f = f x"

text \<open>\<^verbatim>\<open>d[key]\<close> and \<^verbatim>\<open>d.get(key, default)\<close> on one key of a dictionary.\<close>

fun getitem :: "'a option \<Rightarrow> string \<Rightarrow> py_error + 'a" where
  "getitem None key = Inl (KeyError key)"
| "getitem (Some v) key = Inr v"

fun dict_get :: "'a option \<Rightarrow> 'a \<Rightarrow> 'a" where
  "dict_get None dflt = dflt"
| "dict_get (Some v) dflt = v"

text \<open>The truth value Python gives a scalar in an \<^verbatim>\<open>if\<close>.\<close>

fun truthy :: "jvalue \<Rightarrow> bool" where
  "truthy JNone = False"
| "truthy (JBool b) = b"
| "truthy (JInt n) = (n \<noteq> 0)"
| "truthy (JStr s) = (s \<noteq> [])"

text \<open>\<^verbatim>\<open>sep.join(xs)\<close>.\<close>

fun join :: "string \<Rightarrow> string list \<Rightarrow> string" where
  "join sep [] = []"
| "join sep [x] = x"
| "join sep (x # y # ys) = x @ sep @ join sep (y # ys)"

text \<open>
  \<^verbatim>\<open>min\<close> and \<^verbatim>\<open>max\<close> of an iterable: \<^verbatim>\<open>ValueError\<close> on an empty one, otherwise a
  left-to-right scan that replaces the candidate by a strictly smaller (larger) item.
\<close>

fun py_min :: "'a::linorder list \<Rightarrow> py_error + 'a" where
  "py_min [] = Inl ValueError"
| "py_min (x # xs) = Inr (fold (\<lambda>item best. if item < best then item else best) xs x)"

fun py_max :: "'a::linorder list \<Rightarrow> py_error + 'a" where
  "py_max [] = Inl ValueError"
| "py_max (x # xs) = Inr (fold (\<lambda>item best. if item > best then item else best) xs x)"

section \<open>The term extractors\<close>

text \<open>The f-string \<^verbatim>\<open>f"{feature['type']['id']} - {feature['type']['label']}"\<close>.\<close>

definition feature_string :: "feature \<Rightarrow> py_error + string" where
  "feature_string feature =
     bind_err (getitem (f_type feature) ''type'') (\<lambda>t.
     bind_err (getitem (oc_id t) ''id'') (\<lambda>i.
     bind_err (getitem (oc_label t) ''label'') (\<lambda>l.
       Inr (i @ '' - '' @ l))))"

definition disease_string :: "disease \<Rightarrow> py_error + string" where
  "disease_string disease =
     bind_err (getitem (d_term disease) ''term'') (\<lambda>t.
     bind_err (getitem (oc_id t) ''id'') (\<lambda>i.
     bind_err (getitem (oc_label t) ''label'') (\<lambda>l.
       Inr (i @ '' - '' @ l))))"

text \<open>The loop over the features; the third argument is the list built so far.\<close>

fun hpo_loop :: "bool \<Rightarrow> feature list \<Rightarrow> string list \<Rightarrow> py_error + string list" where
  "hpo_loop ignore_excluded [] pheno_strings = Inr pheno_strings"
| "hpo_loop ignore_excluded (feature # rest) pheno_strings =
     (case feature_string feature of
        Inl e \<Rightarrow> Inl e
      | Inr pheno_string \<Rightarrow>
          if truthy (dict_get (f_excluded feature) (JInt 0)) then
            (if ignore_excluded then hpo_loop ignore_excluded rest pheno_strings
             else hpo_loop ignore_excluded rest
                    (pheno_strings @ [pheno_string @ '' (excluded)'']))
          else hpo_loop ignore_excluded rest (pheno_strings @ [pheno_string]))"

fun disease_loop :: "bool \<Rightarrow> disease list \<Rightarrow> string list \<Rightarrow> py_error + string list" where
  "disease_loop ignore_excluded [] disease_strings = Inr disease_strings"
| "disease_loop ignore_excluded (disease # rest) disease_strings =
     (case disease_string disease of
        Inl e \<Rightarrow> Inl e
      | Inr disease_str \<Rightarrow>
          if truthy (dict_get (d_excluded disease) (JInt 0)) then
            (if ignore_excluded then disease_loop ignore_excluded rest disease_strings
             else disease_loop ignore_excluded rest
                    (disease_strings @ [disease_str @ '' (excluded)'']))
          else disease_loop ignore_excluded rest (disease_strings @ [disease_str]))"

text \<open>
  \<^verbatim>\<open>phenopacket["subject"]["id"]\<close>, read by the extractors on the path that logs a
  warning and by the client when it checks the record it fetched.
\<close>

definition sams_entry :: "phenopacket \<Rightarrow> py_error + string" where
  "sams_entry p =
     bind_err (getitem (subject p) ''subject'') (\<lambda>s. getitem (subject_id s) ''id'')"

definition extract_HPO_terms_from_phenopacket ::
  "bool \<Rightarrow> state \<Rightarrow> (py_error + string) \<times> state" where
  "extract_HPO_terms_from_phenopacket ignore_excluded st =
     (case phenotypicFeatures (packet st) of
        None \<Rightarrow>
          (case sams_entry (packet st) of
             Inl e \<Rightarrow> (Inl e, st)
           | Inr entry \<Rightarrow>
               (Inr [],
                st\<lparr>warnings := warnings st @
                     [''SAMS: No phenotypicFeatures found for '' @ entry]\<rparr>))
      | Some phenotypes \<Rightarrow>
          (case hpo_loop ignore_excluded phenotypes [] of
             Inl e \<Rightarrow> (Inl e, st)
           | Inr pheno_strings \<Rightarrow> (Inr (join ''; '' pheno_strings), st)))"

definition extract_disease_terms_from_phenopacket ::
  "bool \<Rightarrow> state \<Rightarrow> (py_error + string) \<times> state" where
  "extract_disease_terms_from_phenopacket ignore_excluded st =
     (case diseases (packet st) of
        None \<Rightarrow>
          (case sams_entry (packet st) of
             Inl e \<Rightarrow> (Inl e, st)
           | Inr entry \<Rightarrow>
               (Inr [],
                st\<lparr>warnings := warnings st @ [''SAMS: No diseases found for '' @ entry]\<rparr>))
      | Some ds \<Rightarrow>
          (case disease_loop ignore_excluded ds [] of
             Inl e \<Rightarrow> (Inl e, st)
           | Inr disease_strings \<Rightarrow> (Inr (join ''; '' disease_strings), st)))"

section \<open>The onset filter\<close>

text \<open>\<^verbatim>\<open>feature["onset"]["timestamp"]\<close> and \<^verbatim>\<open>disease["onset"]["timestamp"]\<close>.\<close>

definition feature_timestamp :: "feature \<Rightarrow> py_error + string" where
  "feature_timestamp feature =
     bind_err (getitem (f_onset feature) ''onset'') (\<lambda>on. getitem (timestamp on) ''timestamp'')"

definition disease_timestamp :: "disease \<Rightarrow> py_error + string" where
  "disease_timestamp disease =
     bind_err (getitem (d_onset disease) ''onset'') (\<lambda>on. getitem (timestamp on) ''timestamp'')"

text \<open>
  The generator \<^verbatim>\<open>feature["onset"]["timestamp"] for feature in ...\<close>: it yields the
  timestamps from left to right and raises at the first feature that has none. \<^verbatim>\<open>min\<close>
  and \<^verbatim>\<open>max\<close> consume all of it, so they see either that error or the whole list.
\<close>

fun feature_timestamps :: "feature list \<Rightarrow> py_error + string list" where
  "feature_timestamps [] = Inr []"
| "feature_timestamps (feature # rest) =
     (case feature_timestamp feature of
        Inl e \<Rightarrow> Inl e
      | Inr t \<Rightarrow>
          (case feature_timestamps rest of
             Inl e \<Rightarrow> Inl e
           | Inr ts \<Rightarrow> Inr (t # ts)))"

definition compute_onset_timestamp :: "phenopacket \<Rightarrow> string \<Rightarrow> py_error + string" where
  "compute_onset_timestamp phenopacket onset =
     (if onset = ''earliest'' then
        bind_err (feature_timestamps (dict_get (phenotypicFeatures phenopacket) [])) py_min
      else if onset = ''latest'' then
        bind_err (feature_timestamps (dict_get (phenotypicFeatures phenopacket) [])) py_max
      else Inr onset)"

text \<open>The two filtering loops; the last argument is the list appended to so far.\<close>

fun filter_features :: "string \<Rightarrow> feature list \<Rightarrow> feature list \<Rightarrow> py_error + feature list" where
  "filter_features onset_timestamp [] filtered = Inr filtered"
| "filter_features onset_timestamp (feature # rest) filtered =
     (case feature_timestamp feature of
        Inl e \<Rightarrow> Inl e
      | Inr t \<Rightarrow>
          filter_features onset_timestamp rest
            (if t = onset_timestamp then filtered @ [feature] else filtered))"

fun filter_diseases :: "string \<Rightarrow> disease list \<Rightarrow> disease list \<Rightarrow> py_error + disease list" where
  "filter_diseases onset_timestamp [] filtered = Inr filtered"
| "filter_diseases onset_timestamp (disease # rest) filtered =
     (case disease_timestamp disease of
        Inl e \<Rightarrow> Inl e
      | Inr t \<Rightarrow>
          filter_diseases onset_timestamp rest
            (if t = onset_timestamp then filtered @ [disease] else filtered))"

text \<open>
  The function assigns to the two keys only after both loops have run, so an exception
  leaves the object as it was; on success the object returned is the one in the state.
\<close>

definition filter_phenopacket_by_onset ::
  "string \<Rightarrow> state \<Rightarrow> (py_error + phenopacket) \<times> state" where
  "filter_phenopacket_by_onset input_onset_timestamp st =
     (case compute_onset_timestamp (packet st) input_onset_timestamp of
        Inl e \<Rightarrow> (Inl e, st)
      | Inr onset_timestamp \<Rightarrow>
          (case filter_features onset_timestamp
                  (dict_get (phenotypicFeatures (packet st)) []) [] of
             Inl e \<Rightarrow> (Inl e, st)
           | Inr filered_phenotypes \<Rightarrow>
               (case filter_diseases onset_timestamp (dict_get (diseases (packet st)) []) [] of
                  Inl e \<Rightarrow> (Inl e, st)
                | Inr filtered_diseases \<Rightarrow>
                    (Inr ((packet st)\<lparr>phenotypicFeatures := Some filered_phenotypes,
                                      diseases := Some filtered_diseases\<rparr>),
                     st\<lparr>packet := (packet st)\<lparr>phenotypicFeatures := Some filered_phenotypes,
                                               diseases := Some filtered_diseases\<rparr>\<rparr>))))"

section \<open>The client\<close>

text \<open>
  The \<^verbatim>\<open>requests.Session\<close> and the server behind it are a parameter: a session state
  of any type \<open>'s\<close> and the two requests the client sends, each returning the response
  (or the exception \<^verbatim>\<open>requests\<close> raises) and the session after it. A response carries its
  status and what \<^verbatim>\<open>resp.json()\<close> gives. The files the client can open are a map from
  paths to the text Python reads from them (newlines already translated to \<^verbatim>\<open>\n\<close>);
  \<open>None\<close> is a file that cannot be opened.
\<close>

record response =
  status_code :: nat
  json :: "py_error + phenopacket"

record 's http =
  session_post :: "string \<Rightarrow> (string \<times> string) list \<Rightarrow> 's \<Rightarrow> (py_error + response) \<times> 's"
  session_get :: "string \<Rightarrow> 's \<Rightarrow> (py_error + response) \<times> 's"

definition SAMS_URL :: string where
  "SAMS_URL = ''https://www.genecascade.org/sams-cgi''"

definition LOGIN_URL :: string where
  "LOGIN_URL = SAMS_URL @ ''/login.cgi''"

definition EXPORT_PHENOPACKET_BY_ID_URL :: "string \<Rightarrow> string" where
  "EXPORT_PHENOPACKET_BY_ID_URL patient_id =
     SAMS_URL @ ''/export_phenopacket.cgi?external_id='' @ patient_id"

definition raise_for_status :: "response \<Rightarrow> py_error + unit" where
  "raise_for_status resp =
     (if 400 \<le> status_code resp \<and> status_code resp < 600
      then Inl (HTTPError (status_code resp)) else Inr ())"

text \<open>The method \<^verbatim>\<open>_login\<close>.\<close>

definition login :: "'s http \<Rightarrow> string \<Rightarrow> string \<Rightarrow> 's \<Rightarrow> (py_error + unit) \<times> 's" where
  "login web username password s =
     (case session_post web LOGIN_URL [(''email'', username), (''password'', password)] s of
        (Inl e, s') \<Rightarrow> (Inl e, s')
      | (Inr resp, s') \<Rightarrow> (raise_for_status resp, s'))"

text \<open>
  \<^verbatim>\<open>str.strip()\<close> removes the characters for which \<^verbatim>\<open>str.isspace\<close> holds from both
  ends; below 256 these are the code points listed. \<^verbatim>\<open>f.readlines()\<close> cuts the text
  after every \<^verbatim>\<open>\n\<close> and keeps it in the line.
\<close>

definition isspace :: "char \<Rightarrow> bool" where
  "isspace c = (of_char c \<in> set [9, 10, 11, 12, 13, 28, 29, 30, 31, 32, 133, 160 :: nat])"

definition strip :: "string \<Rightarrow> string" where
  "strip s = rev (dropWhile isspace (rev (dropWhile isspace s)))"

fun readlines :: "string \<Rightarrow> string list" where
  "readlines [] = []"
| "readlines (c # cs) =
     (if c = CHR 0x0A then [c] # readlines cs
      else (case readlines cs of
              [] \<Rightarrow> [[c]]
            | l # ls \<Rightarrow> (c # l) # ls))"

text \<open>
  \<^verbatim>\<open>username, password = [l.strip() for l in f.readlines()]\<close> unpacks a list of exactly
  two items and raises \<^verbatim>\<open>ValueError\<close> on any other length.
\<close>

definition login_with_credentials_file ::
  "'s http \<Rightarrow> (string \<Rightarrow> string option) \<Rightarrow> string \<Rightarrow> 's \<Rightarrow> (py_error + unit) \<times> 's" where
  "login_with_credentials_file web files credentials_file s =
     (case files credentials_file of
        None \<Rightarrow> (Inl OSError, s)
      | Some text \<Rightarrow>
          (case map strip (readlines text) of
             [username, password] \<Rightarrow> login web username password s
           | _ \<Rightarrow> (Inl ValueError, s)))"

definition login_with_username ::
  "'s http \<Rightarrow> string \<Rightarrow> string \<Rightarrow> 's \<Rightarrow> (py_error + unit) \<times> 's" where
  "login_with_username web username password s = login web username password s"

definition get_phenopacket ::
  "'s http \<Rightarrow> string \<Rightarrow> 's \<Rightarrow> (py_error + phenopacket) \<times> 's" where
  "get_phenopacket web patient_id s =
     (case session_get web (EXPORT_PHENOPACKET_BY_ID_URL patient_id) s of
        (Inl e, s') \<Rightarrow> (Inl e, s')
      | (Inr resp, s') \<Rightarrow>
          (case raise_for_status resp of
             Inl e \<Rightarrow> (Inl e, s')
           | Inr _ \<Rightarrow>
               (case json resp of
                  Inl e \<Rightarrow> (Inl e, s')
                | Inr patient_data \<Rightarrow>
                    (case sams_entry patient_data of
                       Inl e \<Rightarrow> (Inl e, s')
                     | Inr sid \<Rightarrow>
                         if sid \<noteq> patient_id then (Inl RuntimeError, s')
                         else (Inr patient_data, s')))))"

section \<open>The specification's reading of a record\<close>

text \<open>
  The specification describes a feature by \<^verbatim>\<open>type.id\<close>, \<^verbatim>\<open>type.label\<close>, an optional
  flag \<^verbatim>\<open>excluded\<close> and \<^verbatim>\<open>onset.timestamp\<close>, and a disease likewise. The definitions
  of this section follow its words; the theorems below relate them to the functions
  above. \<open>has_type\<close> and \<open>has_onset\<close> say that a feature carries the keys the schema
  gives it; \<open>spec_terms\<close> is the list of formatted terms the specification asks for.
\<close>

definition has_type :: "feature \<Rightarrow> bool" where
  "has_type f = (case f_type f of None \<Rightarrow> False | Some t \<Rightarrow> oc_id t \<noteq> None \<and> oc_label t \<noteq> None)"

definition is_excluded :: "feature \<Rightarrow> bool" where
  "is_excluded f = (case f_excluded f of None \<Rightarrow> False | Some v \<Rightarrow> truthy v)"

definition spec_format :: "feature \<Rightarrow> string" where
  "spec_format f = the (oc_id (the (f_type f))) @ '' - '' @ the (oc_label (the (f_type f)))"

definition spec_entry :: "feature \<Rightarrow> string" where
  "spec_entry f = (if is_excluded f then spec_format f @ '' (excluded)'' else spec_format f)"

definition spec_terms :: "bool \<Rightarrow> feature list \<Rightarrow> string list" where
  "spec_terms ignore_excluded fs =
     map spec_entry (filter (\<lambda>f. \<not> (ignore_excluded \<and> is_excluded f)) fs)"

definition remove_tagged :: "(string \<times> bool) list \<Rightarrow> string list" where
  "remove_tagged segs = map fst (filter (\<lambda>(seg, tagged). \<not> tagged) segs)"

definition remove_suffixed :: "string list \<Rightarrow> string list" where
  "remove_suffixed segs = filter (\<lambda>seg. \<not> suffix '' (excluded)'' seg) segs"

definition has_onset :: "feature \<Rightarrow> bool" where
  "has_onset f = (case f_onset f of None \<Rightarrow> False | Some on \<Rightarrow> timestamp on \<noteq> None)"

definition onset_of :: "feature \<Rightarrow> string" where
  "onset_of f = the (timestamp (the (f_onset f)))"

definition d_has_onset :: "disease \<Rightarrow> bool" where
  "d_has_onset d = (case d_onset d of None \<Rightarrow> False | Some on \<Rightarrow> timestamp on \<noteq> None)"

definition d_onset_of :: "disease \<Rightarrow> string" where
  "d_onset_of d = the (timestamp (the (d_onset d)))"

definition features_of :: "phenopacket \<Rightarrow> feature list" where
  "features_of p = (case phenotypicFeatures p of None \<Rightarrow> [] | Some fs \<Rightarrow> fs)"

definition diseases_of :: "phenopacket \<Rightarrow> disease list" where
  "diseases_of p = (case diseases p of None \<Rightarrow> [] | Some ds \<Rightarrow> ds)"

definition resolved_target :: "phenopacket \<Rightarrow> string \<Rightarrow> string" where
  "resolved_target p sel =
     (if sel = ''earliest'' then Min (set (map onset_of (features_of p)))
      else if sel = ''latest'' then Max (set (map onset_of (features_of p)))
      else sel)"

definition spec_filtered :: "phenopacket \<Rightarrow> string \<Rightarrow> phenopacket" where
  "spec_filtered p t =
     p\<lparr>phenotypicFeatures := Some (filter (\<lambda>f. onset_of f = t) (features_of p)),
       diseases := Some (filter (\<lambda>d. d_onset_of d = t) (diseases_of p))\<rparr>"

section \<open>Example records\<close>

text \<open>
  The record of the repository's test of the onset filter (its second feature marked
  as excluded), and a record that has neither list.
\<close>

definition ex_feature1 :: feature where
  "ex_feature1 = \<lparr>f_type = Some \<lparr>oc_id = Some ''HP:1'', oc_label = Some ''A''\<rparr>,
     f_excluded = None, f_onset = Some \<lparr>timestamp = Some ''2020-01-01''\<rparr>\<rparr>"

definition ex_feature2 :: feature where
  "ex_feature2 = \<lparr>f_type = Some \<lparr>oc_id = Some ''HP:2'', oc_label = Some ''B''\<rparr>,
     f_excluded = Some (JInt 1), f_onset = Some \<lparr>timestamp = Some ''2021-01-01''\<rparr>\<rparr>"

definition ex_disease1 :: disease where
  "ex_disease1 = \<lparr>d_term = Some \<lparr>oc_id = Some ''OMIM:1'', oc_label = Some ''D1''\<rparr>,
     d_excluded = None, d_onset = Some \<lparr>timestamp = Some ''2020-01-01''\<rparr>\<rparr>"

definition ex_disease2 :: disease where
  "ex_disease2 = \<lparr>d_term = Some \<lparr>oc_id = Some ''OMIM:2'', oc_label = Some ''D2''\<rparr>,
     d_excluded = None, d_onset = Some \<lparr>timestamp = Some ''2021-01-01''\<rparr>\<rparr>"

definition ex_packet :: phenopacket where
  "ex_packet = \<lparr>subject = Some \<lparr>subject_id = Some ''p1''\<rparr>,
     phenotypicFeatures = Some [ex_feature1, ex_feature2],
     diseases = Some [ex_disease1, ex_disease2], other_fields = []\<rparr>"

definition ex_bare :: phenopacket where
  "ex_bare = \<lparr>subject = Some \<lparr>subject_id = Some ''p2''\<rparr>,
     phenotypicFeatures = None, diseases = None, other_fields = []\<rparr>"

text \<open>A record whose only feature is not excluded and has a label ending in \<^verbatim>\<open> (excluded)\<close>.\<close>

definition ex_feature3 :: feature where
  "ex_feature3 = \<lparr>f_type = Some \<lparr>oc_id = Some ''HP:3'', oc_label = Some ''C (excluded)''\<rparr>,
     f_excluded = None, f_onset = None\<rparr>"

definition ex_odd :: phenopacket where
  "ex_odd = \<lparr>subject = Some \<lparr>subject_id = Some ''p3''\<rparr>,
     phenotypicFeatures = Some [ex_feature3], diseases = None, other_fields = []\<rparr>"

text \<open>
  A server that answers every request with status 200 and the example record, the
  session state being the list of requests posted so far; and two credentials files,
  one of two lines and one of three.
\<close>

definition ex_web :: "(string \<times> (string \<times> string) list) list http" where
  "ex_web =
     \<lparr>session_post = (\<lambda>url data s.
         (Inr \<lparr>status_code = 200, json = Inl JSONDecodeError\<rparr>, s @ [(url, data)])),
      session_get = (\<lambda>url s. (Inr \<lparr>status_code = 200, json = Inr ex_packet\<rparr>, s))\<rparr>"

definition two_lines :: string where
  "two_lines = '' user'' @ [CHR 0x0A] @ ''pass'' @ [CHR 0x0A]"

definition three_lines :: string where
  "three_lines = ''user'' @ [CHR 0x0A] @ ''pass'' @ [CHR 0x0A] @ ''extra'' @ [CHR 0x0A]"

definition ex_files :: "string \<Rightarrow> string option" where
  "ex_files path =
     (if path = ''two.txt'' then Some two_lines
      else if path = ''three.txt'' then Some three_lines
      else None)"

section \<open>Properties of the extractors\<close>

lemma excluded_flag: "truthy (dict_get (f_excluded f) (JInt 0)) = is_excluded f"
  by (cases "f_excluded f") (simp_all add: is_excluded_def)

lemma feature_string_wf: "has_type f \<Longrightarrow> feature_string f = Inr (spec_format f)"
  by (auto simp: has_type_def feature_string_def spec_format_def split: option.splits)

lemma hpo_loop_acc:
  "hpo_loop ign fs acc = bind_err (hpo_loop ign fs []) (\<lambda>r. Inr (acc @ r))"
proof (induction fs arbitrary: acc)
  case Nil
  show ?case by simp
next
  case (Cons f fs)
  have step: "hpo_loop ign fs (acc @ [x]) = bind_err (hpo_loop ign fs [x]) (\<lambda>r. Inr (acc @ r))" for x
  proof (cases "hpo_loop ign fs []")
    case (Inl e)
    then show ?thesis using Cons.IH [of "acc @ [x]"] Cons.IH [of "[x]"] by simp
  next
    case (Inr r)
    then show ?thesis using Cons.IH [of "acc @ [x]"] Cons.IH [of "[x]"] by simp
  qed
  show ?case
  proof (cases "feature_string f")
    case (Inl e)
    then show ?thesis by simp
  next
    case (Inr str)
    show ?thesis
    proof (cases "truthy (dict_get (f_excluded f) (JInt 0))")
      case True
      then show ?thesis using Inr step Cons.IH [of acc] by (cases ign) simp_all
    next
      case False
      then show ?thesis using Inr step by simp
    qed
  qed
qed

lemma hpo_loop_wf:
  "\<forall>f\<in>set fs. has_type f \<Longrightarrow> hpo_loop ign fs acc = Inr (acc @ spec_terms ign fs)"
proof (induction fs arbitrary: acc)
  case Nil
  show ?case by (simp add: spec_terms_def)
next
  case (Cons f fs)
  then show ?case
    by (cases ign) (simp_all add: feature_string_wf excluded_flag spec_terms_def spec_entry_def)
qed

lemma join_shape:
  "join sep xs = (case xs of [] \<Rightarrow> [] | x # rest \<Rightarrow> x @ concat (map ((@) sep) rest))"
  by (induction sep xs rule: join.induct) simp_all

lemma hpo_loop_modes:
  "hpo_loop False fs [] = Inr segs \<Longrightarrow>
     length segs = length fs
   \<and> hpo_loop True fs [] = Inr (remove_tagged (zip segs (map is_excluded fs)))
   \<and> (\<forall>(seg, tagged) \<in> set (zip segs (map is_excluded fs)). tagged \<longrightarrow> suffix '' (excluded)'' seg)"
proof (induction fs arbitrary: segs)
  case Nil
  then show ?case by (auto simp: remove_tagged_def)
next
  case (Cons f fs)
  from Cons.prems obtain str where str: "feature_string f = Inr str"
    by (cases "feature_string f") auto
  from Cons.prems str obtain r where r: "hpo_loop False fs [] = Inr r"
    by (cases "hpo_loop False fs []")
       (auto simp: hpo_loop_acc [of False fs "[x]" for x] split: if_splits)
  note IH = Cons.IH [OF r]
  have segs: "segs = (if is_excluded f then str @ '' (excluded)'' else str) # r"
    using Cons.prems str r
    by (auto simp: excluded_flag hpo_loop_acc [of False fs "[x]" for x])
  have T: "hpo_loop True (f # fs) [] =
      (if is_excluded f then hpo_loop True fs [] else bind_err (hpo_loop True fs []) (\<lambda>r. Inr (str # r)))"
    using str by (simp add: excluded_flag hpo_loop_acc [of True fs "[x]" for x])
  show ?case using IH segs T by (auto simp: remove_tagged_def suffix_def)
qed

lemma hpo_loop_error:
  "hpo_loop False fs acc = Inl e \<Longrightarrow> hpo_loop True fs acc' = Inl e"
proof (induction fs arbitrary: acc acc')
  case Nil
  then show ?case by simp
next
  case (Cons f fs)
  then show ?case
    by (cases "feature_string f") (auto split: if_splits)
qed

text \<open>
  Claim C2. When the key \<^verbatim>\<open>phenotypicFeatures\<close> is present and every feature has
  \<^verbatim>\<open>type.id\<close> and \<^verbatim>\<open>type.label\<close>, the extractor returns the features' terms in their
  original order, each formatted as \<^verbatim>\<open>id - label\<close>; a feature whose \<^verbatim>\<open>excluded\<close> is
  truthy is left out when \<open>ignore_excluded\<close> holds and gets the suffix
  \<^verbatim>\<open> (excluded)\<close> otherwise. The terms are joined by \<^verbatim>\<open>; \<close>: the first term opens the
  output and each further term follows one separator, so no separator leads or trails.
  An empty list of features gives the empty string. The record and the log stay as they were.
\<close>

theorem extract_HPO_terms_format:
  assumes "phenotypicFeatures (packet st) = Some fs" and "\<forall>f\<in>set fs. has_type f"
  shows "extract_HPO_terms_from_phenopacket ign st = (Inr (join ''; '' (spec_terms ign fs)), st)
       \<and> join ''; '' (spec_terms ign fs) =
           (case spec_terms ign fs of [] \<Rightarrow> [] | x # rest \<Rightarrow> x @ concat (map ((@) ''; '') rest))
       \<and> (fs = [] \<longrightarrow> extract_HPO_terms_from_phenopacket ign st = (Inr [], st))"
proof -
  have loop: "hpo_loop ign fs [] = Inr (spec_terms ign fs)"
    using hpo_loop_wf [OF assms(2), of ign "[]"] by simp
  have run: "extract_HPO_terms_from_phenopacket ign st = (Inr (join ''; '' (spec_terms ign fs)), st)"
    using assms(1) loop by (simp add: extract_HPO_terms_from_phenopacket_def)
  have empty: "fs = [] \<longrightarrow> extract_HPO_terms_from_phenopacket ign st = (Inr [], st)"
    using run by (auto simp: spec_terms_def)
  show ?thesis using run empty join_shape [of "''; ''" "spec_terms ign fs"] by blast
qed

theorem extract_HPO_terms_format_witness:
  "extract_HPO_terms_from_phenopacket True \<lparr>packet = ex_packet, warnings = []\<rparr> =
     (Inr ''HP:1 - A'', \<lparr>packet = ex_packet, warnings = []\<rparr>)
 \<and> extract_HPO_terms_from_phenopacket False \<lparr>packet = ex_packet, warnings = []\<rparr> =
     (Inr ''HP:1 - A; HP:2 - B (excluded)'', \<lparr>packet = ex_packet, warnings = []\<rparr>)"
proof -
  have fs: "phenotypicFeatures (packet \<lparr>packet = ex_packet, warnings = []\<rparr>) =
      Some [ex_feature1, ex_feature2]"
    by (simp add: ex_packet_def)
  have wf: "\<forall>f\<in>set [ex_feature1, ex_feature2]. has_type f"
    by (simp add: has_type_def ex_feature1_def ex_feature2_def)
  have t: "spec_terms True [ex_feature1, ex_feature2] = [''HP:1 - A'']"
    by (simp add: spec_terms_def spec_entry_def spec_format_def is_excluded_def
          ex_feature1_def ex_feature2_def)
  have f: "spec_terms False [ex_feature1, ex_feature2] = [''HP:1 - A'', ''HP:2 - B (excluded)'']"
    by (simp add: spec_terms_def spec_entry_def spec_format_def is_excluded_def
          ex_feature1_def ex_feature2_def)
  show ?thesis using extract_HPO_terms_format [OF fs wf, of True] extract_HPO_terms_format [OF fs wf, of False] t f by simp
qed

lemma remove_tagged_suffixed:
  "length segs = length flags \<Longrightarrow>
   \<forall>(seg, tagged) \<in> set (zip segs flags). tagged \<longleftrightarrow> suffix '' (excluded)'' seg \<Longrightarrow>
   remove_tagged (zip segs flags) = remove_suffixed segs"
  by (induction segs flags rule: list_induct2) (auto simp: remove_tagged_def remove_suffixed_def)

text \<open>
  Claim C6, as the specification states it: the output with \<open>ignore_excluded\<close> on is the
  output with it off without the terms that end in \<^verbatim>\<open> (excluded)\<close>. A feature that is
  not excluded and whose label ends in \<^verbatim>\<open> (excluded)\<close> refutes it: its term ends in the
  suffix and is in the output of both modes.
\<close>

theorem extract_ignore_suffix_counterexample:
  "hpo_loop False [ex_feature3] [] = Inr [''HP:3 - C (excluded)'']
 \<and> fst (extract_HPO_terms_from_phenopacket False \<lparr>packet = ex_odd, warnings = []\<rparr>) =
     Inr (join ''; '' [''HP:3 - C (excluded)''])
 \<and> fst (extract_HPO_terms_from_phenopacket True \<lparr>packet = ex_odd, warnings = []\<rparr>) \<noteq>
     Inr (join ''; '' (remove_suffixed [''HP:3 - C (excluded)'']))"
  by (simp add: extract_HPO_terms_from_phenopacket_def ex_odd_def ex_feature3_def
        feature_string_def remove_suffixed_def suffix_to_prefix)

text \<open>
  Claim C6, amended. Let \<open>segs\<close> be the terms the extractor builds with \<open>ignore_excluded\<close>
  off, one per feature, a term being tagged when its feature is excluded; every tagged
  term ends in \<^verbatim>\<open> (excluded)\<close>. The output with \<open>ignore_excluded\<close> off is \<open>segs\<close> joined by
  \<^verbatim>\<open>; \<close>, and the output with \<open>ignore_excluded\<close> on is the join of \<open>segs\<close> without its
  tagged terms: each tagged term has gone together with one separator, and none is
  doubled or left dangling. When no untagged term ends in \<^verbatim>\<open> (excluded)\<close>, this is the
  join of the terms that do not end in it. When the extractor raises, or the key is
  absent, both modes give the same result.
\<close>

theorem extract_ignore_removes_tagged:
  "(phenotypicFeatures (packet st) = None \<longrightarrow>
      fst (extract_HPO_terms_from_phenopacket True st) =
      fst (extract_HPO_terms_from_phenopacket False st))
 \<and> (phenotypicFeatures (packet st) = Some fs \<longrightarrow>
      (\<forall>e. hpo_loop False fs [] = Inl e \<longrightarrow>
           fst (extract_HPO_terms_from_phenopacket False st) = Inl e
         \<and> fst (extract_HPO_terms_from_phenopacket True st) = Inl e)
    \<and> (\<forall>segs. hpo_loop False fs [] = Inr segs \<longrightarrow>
           length segs = length fs
         \<and> fst (extract_HPO_terms_from_phenopacket False st) = Inr (join ''; '' segs)
         \<and> fst (extract_HPO_terms_from_phenopacket True st) =
             Inr (join ''; '' (remove_tagged (zip segs (map is_excluded fs))))
         \<and> (\<forall>(seg, tagged) \<in> set (zip segs (map is_excluded fs)).
               tagged \<longrightarrow> suffix '' (excluded)'' seg)
         \<and> ((\<forall>(seg, tagged) \<in> set (zip segs (map is_excluded fs)).
               \<not> tagged \<longrightarrow> \<not> suffix '' (excluded)'' seg) \<longrightarrow>
             fst (extract_HPO_terms_from_phenopacket True st) =
               Inr (join ''; '' (remove_suffixed segs)))))"
proof -
  have absent: "phenotypicFeatures (packet st) = None \<longrightarrow>
      fst (extract_HPO_terms_from_phenopacket True st) =
      fst (extract_HPO_terms_from_phenopacket False st)"
    by (auto simp: extract_HPO_terms_from_phenopacket_def split: sum.splits)
  have err: "fst (extract_HPO_terms_from_phenopacket False st) = Inl e
         \<and> fst (extract_HPO_terms_from_phenopacket True st) = Inl e"
    if "phenotypicFeatures (packet st) = Some fs" "hpo_loop False fs [] = Inl e" for e
    using that hpo_loop_error [OF that(2), of "[]"]
    by (simp add: extract_HPO_terms_from_phenopacket_def)
  have ok: "length segs = length fs
         \<and> fst (extract_HPO_terms_from_phenopacket False st) = Inr (join ''; '' segs)
         \<and> fst (extract_HPO_terms_from_phenopacket True st) =
             Inr (join ''; '' (remove_tagged (zip segs (map is_excluded fs))))
         \<and> (\<forall>(seg, tagged) \<in> set (zip segs (map is_excluded fs)).
               tagged \<longrightarrow> suffix '' (excluded)'' seg)"
    if "phenotypicFeatures (packet st) = Some fs" "hpo_loop False fs [] = Inr segs" for segs
    using that hpo_loop_modes [OF that(2)]
    by (simp add: extract_HPO_terms_from_phenopacket_def)
  have lit: "fst (extract_HPO_terms_from_phenopacket True st) =
               Inr (join ''; '' (remove_suffixed segs))"
    if "phenotypicFeatures (packet st) = Some fs" "hpo_loop False fs [] = Inr segs"
      "\<forall>(seg, tagged) \<in> set (zip segs (map is_excluded fs)).
               \<not> tagged \<longrightarrow> \<not> suffix '' (excluded)'' seg" for segs
  proof -
    have "\<forall>(seg, tagged) \<in> set (zip segs (map is_excluded fs)).
        tagged \<longleftrightarrow> suffix '' (excluded)'' seg"
      using ok [OF that(1,2)] that(3) by blast
    then have "remove_tagged (zip segs (map is_excluded fs)) = remove_suffixed segs"
      using ok [OF that(1,2)] remove_tagged_suffixed [of segs "map is_excluded fs"] by simp
    then show ?thesis using ok [OF that(1,2)] by simp
  qed
  show ?thesis using absent err ok lit by blast
qed

theorem extract_ignore_removes_tagged_witness:
  "fst (extract_HPO_terms_from_phenopacket False \<lparr>packet = ex_packet, warnings = []\<rparr>) =
     Inr (join ''; '' [''HP:1 - A'', ''HP:2 - B (excluded)''])
 \<and> fst (extract_HPO_terms_from_phenopacket True \<lparr>packet = ex_packet, warnings = []\<rparr>) =
     Inr (join ''; '' (remove_suffixed [''HP:1 - A'', ''HP:2 - B (excluded)'']))
 \<and> remove_suffixed [''HP:1 - A'', ''HP:2 - B (excluded)''] = [''HP:1 - A'']"
proof -
  have fs: "phenotypicFeatures (packet \<lparr>packet = ex_packet, warnings = []\<rparr>) =
      Some [ex_feature1, ex_feature2]"
    by (simp add: ex_packet_def)
  have segs: "hpo_loop False [ex_feature1, ex_feature2] [] =
      Inr [''HP:1 - A'', ''HP:2 - B (excluded)'']"
    by (simp add: feature_string_def ex_feature1_def ex_feature2_def)
  have untagged: "\<forall>(seg, tagged) \<in> set (zip [''HP:1 - A'', ''HP:2 - B (excluded)'']
        (map is_excluded [ex_feature1, ex_feature2])). \<not> tagged \<longrightarrow> \<not> suffix '' (excluded)'' seg"
    by (simp add: is_excluded_def ex_feature1_def ex_feature2_def suffix_to_prefix)
  have rs: "remove_suffixed [''HP:1 - A'', ''HP:2 - B (excluded)''] = [''HP:1 - A'']"
    by (simp add: remove_suffixed_def suffix_to_prefix)
  have "fst (extract_HPO_terms_from_phenopacket False \<lparr>packet = ex_packet, warnings = []\<rparr>) =
       Inr (join ''; '' [''HP:1 - A'', ''HP:2 - B (excluded)''])
     \<and> fst (extract_HPO_terms_from_phenopacket True \<lparr>packet = ex_packet, warnings = []\<rparr>) =
       Inr (join ''; '' (remove_suffixed [''HP:1 - A'', ''HP:2 - B (excluded)'']))"
    using extract_ignore_removes_tagged [of "\<lparr>packet = ex_packet, warnings = []\<rparr>" "[ex_feature1, ex_feature2]"]
      fs segs untagged
    by blast
  then show ?thesis using rs by blast
qed

text \<open>
  Claim C7. When the key \<^verbatim>\<open>phenotypicFeatures\<close> is absent and \<^verbatim>\<open>subject.id\<close> is
  present, the extractor returns the empty string, raises nothing and logs one warning
  that names the subject; when \<^verbatim>\<open>subject\<close> is absent too, it raises \<^verbatim>\<open>KeyError\<close>.
\<close>

theorem extract_absent_features:
  assumes "phenotypicFeatures (packet st) = None"
  shows "(\<forall>s i. subject (packet st) = Some s \<and> subject_id s = Some i \<longrightarrow>
            extract_HPO_terms_from_phenopacket ign st =
              (Inr [], st\<lparr>warnings := warnings st @
                            [''SAMS: No phenotypicFeatures found for '' @ i]\<rparr>))
       \<and> (subject (packet st) = None \<longrightarrow>
            extract_HPO_terms_from_phenopacket ign st = (Inl (KeyError ''subject''), st))"
  using assms by (simp add: extract_HPO_terms_from_phenopacket_def sams_entry_def)

theorem extract_absent_features_witness:
  "extract_HPO_terms_from_phenopacket True \<lparr>packet = ex_bare, warnings = []\<rparr> =
     (Inr [], \<lparr>packet = ex_bare, warnings = [''SAMS: No phenotypicFeatures found for p2'']\<rparr>)
 \<and> extract_HPO_terms_from_phenopacket True
       \<lparr>packet = ex_bare\<lparr>subject := None\<rparr>, warnings = []\<rparr> =
     (Inl (KeyError ''subject''), \<lparr>packet = ex_bare\<lparr>subject := None\<rparr>, warnings = []\<rparr>)"
proof -
  have a: "phenotypicFeatures (packet \<lparr>packet = ex_bare, warnings = []\<rparr>) = None"
    by (simp add: ex_bare_def)
  have b: "phenotypicFeatures (packet \<lparr>packet = ex_bare\<lparr>subject := None\<rparr>, warnings = []\<rparr>) = None"
    by (simp add: ex_bare_def)
  show ?thesis using extract_absent_features [OF a, of True] extract_absent_features [OF b, of True] by (simp add: ex_bare_def)
qed

text \<open>
  Claim C9. Neither extractor changes the record it reads, and a second run on the
  state the first run left returns what the first run returned.
\<close>

theorem extractors_leave_record:
  "packet (snd (extract_HPO_terms_from_phenopacket ign st)) = packet st
 \<and> packet (snd (extract_disease_terms_from_phenopacket ign st)) = packet st
 \<and> fst (extract_HPO_terms_from_phenopacket ign
          (snd (extract_HPO_terms_from_phenopacket ign st))) =
     fst (extract_HPO_terms_from_phenopacket ign st)
 \<and> fst (extract_disease_terms_from_phenopacket ign
          (snd (extract_disease_terms_from_phenopacket ign st))) =
     fst (extract_disease_terms_from_phenopacket ign st)"
proof -
  have h: "packet (snd (extract_HPO_terms_from_phenopacket ign st)) = packet st"
    by (simp add: extract_HPO_terms_from_phenopacket_def split: option.splits sum.splits)
  have d: "packet (snd (extract_disease_terms_from_phenopacket ign st)) = packet st"
    by (simp add: extract_disease_terms_from_phenopacket_def split: option.splits sum.splits)
  have same_h: "fst (extract_HPO_terms_from_phenopacket ign st') =
      fst (extract_HPO_terms_from_phenopacket ign st)" if "packet st' = packet st" for st'
    using that by (simp add: extract_HPO_terms_from_phenopacket_def split: option.splits sum.splits)
  have same_d: "fst (extract_disease_terms_from_phenopacket ign st') =
      fst (extract_disease_terms_from_phenopacket ign st)" if "packet st' = packet st" for st'
    using that
    by (simp add: extract_disease_terms_from_phenopacket_def split: option.splits sum.splits)
  show ?thesis using h d same_h [OF h] same_d [OF d] by simp
qed

section \<open>Properties of the onset filter\<close>

lemma feature_timestamp_wf: "has_onset f \<Longrightarrow> feature_timestamp f = Inr (onset_of f)"
  by (auto simp: has_onset_def feature_timestamp_def onset_of_def split: option.splits)

lemma disease_timestamp_wf: "d_has_onset d \<Longrightarrow> disease_timestamp d = Inr (d_onset_of d)"
  by (auto simp: d_has_onset_def disease_timestamp_def d_onset_of_def split: option.splits)

lemma feature_timestamp_error: "feature_timestamp f = Inl e \<Longrightarrow> e \<noteq> ValueError"
proof (cases "f_onset f")
  case None
  then show "feature_timestamp f = Inl e \<Longrightarrow> ?thesis" by (auto simp: feature_timestamp_def)
next
  case (Some on)
  then show "feature_timestamp f = Inl e \<Longrightarrow> ?thesis"
    by (cases "timestamp on") (auto simp: feature_timestamp_def)
qed

lemma disease_timestamp_error: "disease_timestamp d = Inl e \<Longrightarrow> e \<noteq> ValueError"
proof (cases "d_onset d")
  case None
  then show "disease_timestamp d = Inl e \<Longrightarrow> ?thesis" by (auto simp: disease_timestamp_def)
next
  case (Some on)
  then show "disease_timestamp d = Inl e \<Longrightarrow> ?thesis"
    by (cases "timestamp on") (auto simp: disease_timestamp_def)
qed

lemma feature_timestamps_wf:
  "\<forall>f\<in>set fs. has_onset f \<Longrightarrow> feature_timestamps fs = Inr (map onset_of fs)"
  by (induction fs) (simp_all add: feature_timestamp_wf)

lemma feature_timestamps_result:
  "feature_timestamps fs = Inl e \<Longrightarrow> e \<noteq> ValueError"
  "feature_timestamps fs = Inr ts \<Longrightarrow> length ts = length fs"
  by (induction fs arbitrary: ts) (auto split: sum.splits dest: feature_timestamp_error)

lemma filter_features_wf:
  "\<forall>f\<in>set fs. has_onset f \<Longrightarrow>
   filter_features t fs acc = Inr (acc @ filter (\<lambda>f. onset_of f = t) fs)"
  by (induction fs arbitrary: acc) (simp_all add: feature_timestamp_wf)

lemma filter_diseases_wf:
  "\<forall>d\<in>set ds. d_has_onset d \<Longrightarrow>
   filter_diseases t ds acc = Inr (acc @ filter (\<lambda>d. d_onset_of d = t) ds)"
  by (induction ds arbitrary: acc) (simp_all add: disease_timestamp_wf)

lemma filter_features_error: "filter_features t fs acc = Inl e \<Longrightarrow> e \<noteq> ValueError"
  by (induction fs arbitrary: acc) (auto split: sum.splits dest: feature_timestamp_error)

lemma filter_diseases_error: "filter_diseases t ds acc = Inl e \<Longrightarrow> e \<noteq> ValueError"
  by (induction ds arbitrary: acc) (auto split: sum.splits dest: disease_timestamp_error)

lemma py_min_Min: "xs \<noteq> [] \<Longrightarrow> py_min xs = Inr (Min (set xs))"
proof (cases xs)
  case Nil
  then show "xs \<noteq> [] \<Longrightarrow> ?thesis" by simp
next
  case (Cons x rest)
  have "(\<lambda>item best. if item < best then item else best) = (min :: 'a \<Rightarrow> 'a \<Rightarrow> 'a)"
    by (auto simp: fun_eq_iff min_def)
  then have "py_min xs = Inr (fold min rest x)" using Cons by simp
  then show ?thesis using Cons Min.set_eq_fold [of x rest] by simp
qed

lemma py_max_Max: "xs \<noteq> [] \<Longrightarrow> py_max xs = Inr (Max (set xs))"
proof (cases xs)
  case Nil
  then show "xs \<noteq> [] \<Longrightarrow> ?thesis" by simp
next
  case (Cons x rest)
  have "(\<lambda>item best. if item > best then item else best) = (max :: 'a \<Rightarrow> 'a \<Rightarrow> 'a)"
    by (auto simp: fun_eq_iff max_def)
  then have "py_max xs = Inr (fold max rest x)" using Cons by simp
  then show ?thesis using Cons Max.set_eq_fold [of x rest] by simp
qed

lemma py_min_empty: "py_min xs = Inl e \<longleftrightarrow> xs = [] \<and> e = ValueError"
  by (cases xs) auto

lemma py_max_empty: "py_max xs = Inl e \<longleftrightarrow> xs = [] \<and> e = ValueError"
  by (cases xs) auto

lemma compute_literal:
  "sel \<noteq> ''earliest'' \<Longrightarrow> sel \<noteq> ''latest'' \<Longrightarrow> compute_onset_timestamp p sel = Inr sel"
  by (simp add: compute_onset_timestamp_def)

lemma compute_earliest:
  assumes "\<forall>f\<in>set (dict_get (phenotypicFeatures p) []). has_onset f"
    and "dict_get (phenotypicFeatures p) [] \<noteq> []"
  shows "compute_onset_timestamp p ''earliest'' =
           Inr (Min (set (map onset_of (dict_get (phenotypicFeatures p) []))))"
  using assms by (simp add: compute_onset_timestamp_def feature_timestamps_wf py_min_Min)

lemma compute_latest:
  assumes "\<forall>f\<in>set (dict_get (phenotypicFeatures p) []). has_onset f"
    and "dict_get (phenotypicFeatures p) [] \<noteq> []"
  shows "compute_onset_timestamp p ''latest'' =
           Inr (Max (set (map onset_of (dict_get (phenotypicFeatures p) []))))"
  using assms by (simp add: compute_onset_timestamp_def feature_timestamps_wf py_max_Max)

lemma filter_run:
  assumes "\<forall>f\<in>set (dict_get (phenotypicFeatures (packet st)) []). has_onset f"
    and "\<forall>d\<in>set (dict_get (diseases (packet st)) []). d_has_onset d"
    and "compute_onset_timestamp (packet st) sel = Inr t"
  shows "filter_phenopacket_by_onset sel st =
      (Inr ((packet st)\<lparr>
              phenotypicFeatures :=
                Some (filter (\<lambda>f. onset_of f = t) (dict_get (phenotypicFeatures (packet st)) [])),
              diseases :=
                Some (filter (\<lambda>d. d_onset_of d = t) (dict_get (diseases (packet st)) []))\<rparr>),
       st\<lparr>packet := (packet st)\<lparr>
              phenotypicFeatures :=
                Some (filter (\<lambda>f. onset_of f = t) (dict_get (phenotypicFeatures (packet st)) [])),
              diseases :=
                Some (filter (\<lambda>d. d_onset_of d = t) (dict_get (diseases (packet st)) []))\<rparr>\<rparr>)"
  using assms
  by (simp add: filter_phenopacket_by_onset_def filter_features_wf filter_diseases_wf)

lemma compute_ValueError:
  "compute_onset_timestamp p sel = Inl ValueError \<longleftrightarrow>
     (sel = ''earliest'' \<or> sel = ''latest'') \<and> dict_get (phenotypicFeatures p) [] = []"
proof (cases "feature_timestamps (dict_get (phenotypicFeatures p) [])")
  case (Inl e)
  then have "dict_get (phenotypicFeatures p) [] \<noteq> []" by auto
  then show ?thesis using Inl feature_timestamps_result(1) [OF Inl]
    by (auto simp: compute_onset_timestamp_def)
next
  case (Inr ts)
  then have "ts = [] \<longleftrightarrow> dict_get (phenotypicFeatures p) [] = []"
    using feature_timestamps_result(2) [OF Inr] by auto
  then show ?thesis using Inr
    by (auto simp: compute_onset_timestamp_def py_min_empty py_max_empty)
qed

lemma filter_ValueError:
  "fst (filter_phenopacket_by_onset sel st) = Inl ValueError \<longleftrightarrow>
     compute_onset_timestamp (packet st) sel = Inl ValueError"
proof (cases "compute_onset_timestamp (packet st) sel")
  case (Inl e)
  then show ?thesis by (simp add: filter_phenopacket_by_onset_def)
next
  case t: (Inr t)
  show ?thesis
  proof (cases "filter_features t (dict_get (phenotypicFeatures (packet st)) []) []")
    case (Inl e)
    then show ?thesis using t filter_features_error [OF Inl]
      by (simp add: filter_phenopacket_by_onset_def)
  next
    case ff: (Inr ff)
    show ?thesis
    proof (cases "filter_diseases t (dict_get (diseases (packet st)) []) []")
      case (Inl e)
      then show ?thesis using t ff filter_diseases_error [OF Inl]
        by (simp add: filter_phenopacket_by_onset_def)
    next
      case (Inr fd)
      then show ?thesis using t ff by (simp add: filter_phenopacket_by_onset_def)
    qed
  qed
qed

lemma compute_ignores_diseases:
  "compute_onset_timestamp (p\<lparr>diseases := ds\<rparr>) sel = compute_onset_timestamp p sel"
  by (simp add: compute_onset_timestamp_def)

lemma features_of_get: "dict_get (phenotypicFeatures p) [] = features_of p"
  by (cases "phenotypicFeatures p") (simp_all add: features_of_def)

lemma diseases_of_get: "dict_get (diseases p) [] = diseases_of p"
  by (cases "diseases p") (simp_all add: diseases_of_def)

lemma compute_resolved:
  assumes "\<forall>f\<in>set (features_of p). has_onset f"
    and "sel \<notin> {''earliest'', ''latest''} \<or> features_of p \<noteq> []"
  shows "compute_onset_timestamp p sel = Inr (resolved_target p sel)"
proof -
  consider "sel = ''earliest''" | "sel = ''latest''" | "sel \<noteq> ''earliest''" "sel \<noteq> ''latest''"
    by blast
  then show ?thesis
  proof cases
    case 1
    then show ?thesis using assms compute_earliest [of p]
      by (simp add: features_of_get resolved_target_def)
  next
    case 2
    then show ?thesis using assms compute_latest [of p]
      by (simp add: features_of_get resolved_target_def)
  next
    case 3
    then show ?thesis by (simp add: compute_literal resolved_target_def)
  qed
qed

lemma filter_resolved:
  assumes "\<forall>f\<in>set (features_of (packet st)). has_onset f"
    and "\<forall>d\<in>set (diseases_of (packet st)). d_has_onset d"
    and "sel \<notin> {''earliest'', ''latest''} \<or> features_of (packet st) \<noteq> []"
  shows "filter_phenopacket_by_onset sel st =
      (Inr (spec_filtered (packet st) (resolved_target (packet st) sel)),
       st\<lparr>packet := spec_filtered (packet st) (resolved_target (packet st) sel)\<rparr>)"
  using filter_run [of st sel, OF _ _ compute_resolved [OF assms(1) assms(3)]] assms(1,2)
  by (simp add: features_of_get diseases_of_get spec_filtered_def)

lemma ex_wf:
  "\<forall>f\<in>set (features_of ex_packet). has_onset f"
  "\<forall>d\<in>set (diseases_of ex_packet). d_has_onset d"
  "features_of ex_packet \<noteq> []"
  by (simp_all add: features_of_def diseases_of_def ex_packet_def has_onset_def d_has_onset_def
        ex_feature1_def ex_feature2_def ex_disease1_def ex_disease2_def)

lemma ex_min: "Min (set (map onset_of (features_of ex_packet))) = ''2020-01-01''"
  by (simp add: features_of_def ex_packet_def onset_of_def ex_feature1_def ex_feature2_def)

lemma ex_max: "Max (set (map onset_of (features_of ex_packet))) = ''2021-01-01''"
  by (simp add: features_of_def ex_packet_def onset_of_def ex_feature1_def ex_feature2_def)

text \<open>
  Claim C1. For a record whose features and diseases all carry \<^verbatim>\<open>onset.timestamp\<close>, and
  a selector that is a literal timestamp or a sentinel with at least one feature, the
  filter succeeds: it replaces \<^verbatim>\<open>phenotypicFeatures\<close> by the features whose timestamp is
  the resolved target and \<^verbatim>\<open>diseases\<close> by the diseases whose timestamp is that same
  target, both in their original order, an absent list counting as empty; the record
  returned is the one left in the state.
\<close>

theorem filter_by_onset_keeps_matching:
  assumes "\<forall>f\<in>set (features_of (packet st)). has_onset f"
    and "\<forall>d\<in>set (diseases_of (packet st)). d_has_onset d"
    and "sel \<notin> {''earliest'', ''latest''} \<or> features_of (packet st) \<noteq> []"
  shows "filter_phenopacket_by_onset sel st =
      (Inr (spec_filtered (packet st) (resolved_target (packet st) sel)),
       st\<lparr>packet := spec_filtered (packet st) (resolved_target (packet st) sel)\<rparr>)"
  using assms by (rule filter_resolved)

theorem filter_by_onset_keeps_matching_witness:
  "filter_phenopacket_by_onset ''earliest'' \<lparr>packet = ex_packet, warnings = []\<rparr> =
     (Inr (ex_packet\<lparr>phenotypicFeatures := Some [ex_feature1], diseases := Some [ex_disease1]\<rparr>),
      \<lparr>packet = ex_packet\<lparr>phenotypicFeatures := Some [ex_feature1],
                           diseases := Some [ex_disease1]\<rparr>, warnings = []\<rparr>)"
proof -
  have t: "resolved_target ex_packet ''earliest'' = ''2020-01-01''"
    using ex_min by (simp add: resolved_target_def)
  have "spec_filtered ex_packet ''2020-01-01'' =
      ex_packet\<lparr>phenotypicFeatures := Some [ex_feature1], diseases := Some [ex_disease1]\<rparr>"
    by (simp add: spec_filtered_def features_of_def diseases_of_def ex_packet_def onset_of_def
          d_onset_of_def ex_feature1_def ex_feature2_def ex_disease1_def ex_disease2_def)
  then show ?thesis
    using filter_by_onset_keeps_matching [of "\<lparr>packet = ex_packet, warnings = []\<rparr>" "''earliest''"] ex_wf t by simp
qed

text \<open>
  Claim C4. With the selector \<^verbatim>\<open>earliest\<close> (\<^verbatim>\<open>latest\<close>) the filter raises \<^verbatim>\<open>ValueError\<close>,
  the empty-input error of \<^verbatim>\<open>min\<close> (\<^verbatim>\<open>max\<close>), exactly when \<^verbatim>\<open>phenotypicFeatures\<close> is
  absent or empty. When every feature has a timestamp and there is at least one, the
  target is the least (greatest) timestamp of the features in the lexicographic order of
  strings. The diseases play no part in it.
\<close>

theorem onset_resolution_min_max:
  "(fst (filter_phenopacket_by_onset ''earliest'' st) = Inl ValueError \<longleftrightarrow>
      phenotypicFeatures (packet st) = None \<or> phenotypicFeatures (packet st) = Some [])
 \<and> (fst (filter_phenopacket_by_onset ''latest'' st) = Inl ValueError \<longleftrightarrow>
      phenotypicFeatures (packet st) = None \<or> phenotypicFeatures (packet st) = Some [])
 \<and> ((\<forall>f\<in>set (features_of (packet st)). has_onset f) \<and> features_of (packet st) \<noteq> [] \<longrightarrow>
      compute_onset_timestamp (packet st) ''earliest'' =
        Inr (Min (set (map onset_of (features_of (packet st)))))
    \<and> compute_onset_timestamp (packet st) ''latest'' =
        Inr (Max (set (map onset_of (features_of (packet st))))))
 \<and> (\<forall>ds. compute_onset_timestamp ((packet st)\<lparr>diseases := ds\<rparr>) sel =
           compute_onset_timestamp (packet st) sel)"
proof -
  have empty: "dict_get (phenotypicFeatures (packet st)) [] = [] \<longleftrightarrow>
      phenotypicFeatures (packet st) = None \<or> phenotypicFeatures (packet st) = Some []"
    by (cases "phenotypicFeatures (packet st)") simp_all
  have e: "fst (filter_phenopacket_by_onset ''earliest'' st) = Inl ValueError \<longleftrightarrow>
      phenotypicFeatures (packet st) = None \<or> phenotypicFeatures (packet st) = Some []"
    using empty by (simp add: filter_ValueError compute_ValueError)
  have l: "fst (filter_phenopacket_by_onset ''latest'' st) = Inl ValueError \<longleftrightarrow>
      phenotypicFeatures (packet st) = None \<or> phenotypicFeatures (packet st) = Some []"
    using empty by (simp add: filter_ValueError compute_ValueError)
  have m: "(\<forall>f\<in>set (features_of (packet st)). has_onset f) \<and> features_of (packet st) \<noteq> [] \<longrightarrow>
      compute_onset_timestamp (packet st) ''earliest'' =
        Inr (Min (set (map onset_of (features_of (packet st)))))
    \<and> compute_onset_timestamp (packet st) ''latest'' =
        Inr (Max (set (map onset_of (features_of (packet st)))))"
    using compute_earliest [of "packet st"] compute_latest [of "packet st"]
    by (simp add: features_of_get)
  have d: "\<forall>ds. compute_onset_timestamp ((packet st)\<lparr>diseases := ds\<rparr>) sel =
           compute_onset_timestamp (packet st) sel"
    by (simp add: compute_ignores_diseases)
  show ?thesis using e l m d by blast
qed

theorem onset_resolution_min_max_witness:
  "compute_onset_timestamp ex_packet ''earliest'' = Inr ''2020-01-01''
 \<and> compute_onset_timestamp ex_packet ''latest'' = Inr ''2021-01-01''
 \<and> fst (filter_phenopacket_by_onset ''earliest'' \<lparr>packet = ex_bare, warnings = []\<rparr>) = Inl ValueError"
proof -
  have b: "phenotypicFeatures ex_bare = None" by (simp add: ex_bare_def)
  show ?thesis
    using onset_resolution_min_max [of "\<lparr>packet = ex_packet, warnings = []\<rparr>"]
      onset_resolution_min_max [of "\<lparr>packet = ex_bare, warnings = []\<rparr>"] ex_wf ex_min ex_max b
    by simp
qed

text \<open>
  Claim C8. For a record with at least one feature (features and diseases all carrying
  \<^verbatim>\<open>onset.timestamp\<close>), filtering by \<^verbatim>\<open>earliest\<close> succeeds and leaves a record with at
  least one feature, and filtering that record by \<^verbatim>\<open>earliest\<close> again returns it unchanged.
\<close>

theorem filter_earliest_fixed_point:
  assumes "\<forall>f\<in>set (features_of (packet st)). has_onset f"
    and "\<forall>d\<in>set (diseases_of (packet st)). d_has_onset d"
    and "features_of (packet st) \<noteq> []"
  shows "\<exists>p1. filter_phenopacket_by_onset ''earliest'' st = (Inr p1, st\<lparr>packet := p1\<rparr>)
            \<and> phenotypicFeatures p1 \<noteq> Some []
            \<and> filter_phenopacket_by_onset ''earliest'' (st\<lparr>packet := p1\<rparr>) =
                (Inr p1, st\<lparr>packet := p1\<rparr>)"
proof -
  define t where "t = resolved_target (packet st) ''earliest''"
  define p1 where "p1 = spec_filtered (packet st) t"
  have first: "filter_phenopacket_by_onset ''earliest'' st = (Inr p1, st\<lparr>packet := p1\<rparr>)"
    using filter_resolved [OF assms(1,2), of "''earliest''"] assms(3) by (simp add: p1_def t_def)
  have t_in: "t \<in> set (map onset_of (features_of (packet st)))"
    unfolding t_def resolved_target_def using assms(3) Min_in [of "set (map onset_of (features_of (packet st)))"]
    by simp
  have f1: "features_of p1 = filter (\<lambda>f. onset_of f = t) (features_of (packet st))"
    by (simp add: p1_def spec_filtered_def features_of_def)
  have d1: "diseases_of p1 = filter (\<lambda>d. d_onset_of d = t) (diseases_of (packet st))"
    by (simp add: p1_def spec_filtered_def diseases_of_def)
  have ne: "features_of p1 \<noteq> []"
    using t_in by (auto simp: f1 filter_empty_conv)
  have all_t: "set (map onset_of (features_of p1)) = {t}"
    using ne by (auto simp: f1 filter_empty_conv)
  have t1: "resolved_target p1 ''earliest'' = t"
    unfolding resolved_target_def using all_t by simp
  have wf1: "\<forall>f\<in>set (features_of (packet (st\<lparr>packet := p1\<rparr>))). has_onset f"
    "\<forall>d\<in>set (diseases_of (packet (st\<lparr>packet := p1\<rparr>))). d_has_onset d"
    using assms(1,2) by (simp_all add: f1 d1)
  have fixed: "spec_filtered p1 t = p1"
    unfolding spec_filtered_def f1 d1 by (simp add: p1_def spec_filtered_def)
  have second: "filter_phenopacket_by_onset ''earliest'' (st\<lparr>packet := p1\<rparr>) =
      (Inr p1, st\<lparr>packet := p1\<rparr>)"
    using filter_resolved [OF wf1, of "''earliest''"] ne t1 fixed by simp
  have "phenotypicFeatures p1 \<noteq> Some []"
    using ne by (auto simp: features_of_def)
  then show ?thesis using first second by blast
qed

theorem filter_earliest_fixed_point_witness:
  "filter_phenopacket_by_onset ''earliest''
     \<lparr>packet = ex_packet\<lparr>phenotypicFeatures := Some [ex_feature1],
                          diseases := Some [ex_disease1]\<rparr>, warnings = []\<rparr> =
     (Inr (ex_packet\<lparr>phenotypicFeatures := Some [ex_feature1], diseases := Some [ex_disease1]\<rparr>),
      \<lparr>packet = ex_packet\<lparr>phenotypicFeatures := Some [ex_feature1],
                           diseases := Some [ex_disease1]\<rparr>, warnings = []\<rparr>)"
proof -
  have first: "filter_phenopacket_by_onset ''earliest'' \<lparr>packet = ex_packet, warnings = []\<rparr> =
     (Inr (ex_packet\<lparr>phenotypicFeatures := Some [ex_feature1], diseases := Some [ex_disease1]\<rparr>),
      \<lparr>packet = ex_packet\<lparr>phenotypicFeatures := Some [ex_feature1],
                           diseases := Some [ex_disease1]\<rparr>, warnings = []\<rparr>)"
    by (simp add: filter_phenopacket_by_onset_def compute_onset_timestamp_def ex_packet_def
          feature_timestamp_def disease_timestamp_def
          ex_feature1_def ex_feature2_def ex_disease1_def ex_disease2_def)
  show ?thesis
    using filter_earliest_fixed_point [of "\<lparr>packet = ex_packet, warnings = []\<rparr>"] ex_wf first by auto
qed

text \<open>
  Claim C10. Whenever the filter succeeds, the record it returns has both keys
  \<^verbatim>\<open>phenotypicFeatures\<close> and \<^verbatim>\<open>diseases\<close>, bound to the empty list where the key was
  absent before; \<^verbatim>\<open>subject\<close> and all other fields are as they were, and the record in
  the state is the one returned.
\<close>

theorem filter_adds_both_keys:
  assumes "filter_phenopacket_by_onset sel st = (Inr p', st')"
  shows "phenotypicFeatures p' \<noteq> None \<and> diseases p' \<noteq> None
       \<and> (phenotypicFeatures (packet st) = None \<longrightarrow> phenotypicFeatures p' = Some [])
       \<and> (diseases (packet st) = None \<longrightarrow> diseases p' = Some [])
       \<and> subject p' = subject (packet st) \<and> other_fields p' = other_fields (packet st)
       \<and> st' = st\<lparr>packet := p'\<rparr>"
  using assms
  by (auto simp: filter_phenopacket_by_onset_def split: sum.splits)

theorem filter_adds_both_keys_witness:
  "filter_phenopacket_by_onset ''2020-01-01'' \<lparr>packet = ex_bare, warnings = []\<rparr> =
     (Inr (ex_bare\<lparr>phenotypicFeatures := Some [], diseases := Some []\<rparr>),
      \<lparr>packet = ex_bare\<lparr>phenotypicFeatures := Some [], diseases := Some []\<rparr>, warnings = []\<rparr>)
   \<and> phenotypicFeatures ex_bare = None \<and> diseases ex_bare = None
   \<and> phenotypicFeatures (ex_bare\<lparr>phenotypicFeatures := Some [], diseases := Some []\<rparr>) \<noteq> None
   \<and> diseases (ex_bare\<lparr>phenotypicFeatures := Some [], diseases := Some []\<rparr>) \<noteq> None"
proof -
  have run: "filter_phenopacket_by_onset ''2020-01-01'' \<lparr>packet = ex_bare, warnings = []\<rparr> =
     (Inr (ex_bare\<lparr>phenotypicFeatures := Some [], diseases := Some []\<rparr>),
      \<lparr>packet = ex_bare\<lparr>phenotypicFeatures := Some [], diseases := Some []\<rparr>, warnings = []\<rparr>)"
    by (simp add: filter_phenopacket_by_onset_def compute_onset_timestamp_def ex_bare_def)
  show ?thesis using filter_adds_both_keys [OF run] run by (simp add: ex_bare_def)
qed

section \<open>Properties of the client\<close>

lemma concat_readlines: "concat (readlines content) = content"
  by (induction content) (auto split: list.splits)

lemma strip_trims:
  "\<exists>a b. s = a @ strip s @ b \<and> (\<forall>c\<in>set a. isspace c) \<and> (\<forall>c\<in>set b. isspace c)
       \<and> (strip s \<noteq> [] \<longrightarrow> \<not> isspace (hd (strip s)) \<and> \<not> isspace (last (strip s)))"
proof -
  define d where "d = dropWhile isspace s"
  define a where "a = takeWhile isspace s"
  define b where "b = rev (takeWhile isspace (rev d))"
  have s: "s = a @ d" by (simp add: a_def d_def)
  have "strip s @ b = rev (takeWhile isspace (rev d) @ dropWhile isspace (rev d))"
    unfolding strip_def b_def d_def by (simp only: rev_append)
  also have "\<dots> = rev (rev d)" by (simp only: takeWhile_dropWhile_id)
  finally have d: "d = strip s @ b" by simp
  have wa: "\<forall>c\<in>set a. isspace c"
    unfolding a_def by (auto dest: set_takeWhileD)
  have wb: "\<forall>c\<in>set b. isspace c"
    unfolding b_def by (auto dest: set_takeWhileD)
  have ends: "\<not> isspace (hd (strip s)) \<and> \<not> isspace (last (strip s))" if ne: "strip s \<noteq> []"
  proof -
    have "dropWhile isspace (rev d) \<noteq> []" using ne by (simp add: strip_def d_def)
    then have l: "\<not> isspace (hd (dropWhile isspace (rev d)))" by (rule hd_dropWhile)
    have "last (strip s) = hd (dropWhile isspace (rev d))"
      using ne by (simp add: strip_def d_def last_rev)
    then have last_ok: "\<not> isspace (last (strip s))" using l by simp
    have "d \<noteq> []" using d ne by auto
    then have "\<not> isspace (hd d)" unfolding d_def by (rule hd_dropWhile)
    moreover have "hd d = hd (strip s)" using d ne by (metis hd_append2)
    ultimately show ?thesis using last_ok by simp
  qed
  show ?thesis using s d wa wb ends by (intro exI [of _ a] exI [of _ b]) auto
qed

text \<open>
  Claim C3, as the specification states it: every readable file of at least two lines
  logs in with its first two lines. A readable file of three lines refutes it: the
  unpacking raises \<^verbatim>\<open>ValueError\<close> and no request is posted, while a login with the
  first two lines, stripped, would have posted one.
\<close>

theorem credentials_three_lines_counterexample:
  "2 \<le> length (readlines three_lines)
 \<and> ex_files ''three.txt'' = Some three_lines
 \<and> login_with_credentials_file ex_web ex_files ''three.txt'' [] = (Inl ValueError, [])
 \<and> login ex_web (strip (readlines three_lines ! 0)) (strip (readlines three_lines ! 1)) [] =
     (Inr (), [(LOGIN_URL, [(''email'', ''user''), (''password'', ''pass'')])])"
  by (simp add: login_with_credentials_file_def ex_files_def three_lines_def login_def ex_web_def
        raise_for_status_def strip_def isspace_def)

text \<open>
  Claim C3, amended. A file that cannot be opened raises \<^verbatim>\<open>OSError\<close>. A readable file
  of exactly two lines logs in with the first line as user name and the second as
  password, both stripped of surrounding whitespace, and the outcome is that of the
  login. A readable file with any other number of lines raises \<^verbatim>\<open>ValueError\<close> and
  leaves the session as it was.
\<close>

theorem credentials_exactly_two_lines:
  "(files path = None \<longrightarrow> login_with_credentials_file web files path s = (Inl OSError, s))
 \<and> (\<forall>text. files path = Some text \<longrightarrow>
       (\<forall>l1 l2. readlines text = [l1, l2] \<longrightarrow>
          login_with_credentials_file web files path s = login web (strip l1) (strip l2) s)
     \<and> (length (readlines text) \<noteq> 2 \<longrightarrow>
          login_with_credentials_file web files path s = (Inl ValueError, s)))"
proof -
  have other: "login_with_credentials_file web files path s = (Inl ValueError, s)"
    if opened: "files path = Some content" and len: "length (readlines content) \<noteq> 2"
    for content
  proof (cases "map strip (readlines content)")
    case Nil
    then show ?thesis using opened by (simp add: login_with_credentials_file_def)
  next
    case one: (Cons u r1)
    show ?thesis
    proof (cases r1)
      case Nil
      then show ?thesis using opened one by (simp add: login_with_credentials_file_def)
    next
      case two: (Cons p r2)
      show ?thesis
      proof (cases r2)
        case Nil
        then have "length (map strip (readlines content)) = 2" using one two by simp
        then show ?thesis using len by simp
      next
        case (Cons q r3)
        then show ?thesis using opened one two by (simp add: login_with_credentials_file_def)
      qed
    qed
  qed
  show ?thesis using other by (auto simp: login_with_credentials_file_def)
qed

theorem credentials_exactly_two_lines_witness:
  "login_with_credentials_file ex_web ex_files ''two.txt'' [] =
     (Inr (), [(LOGIN_URL, [(''email'', ''user''), (''password'', ''pass'')])])
 \<and> login_with_credentials_file ex_web ex_files ''three.txt'' [] = (Inl ValueError, [])
 \<and> login_with_credentials_file ex_web ex_files ''none.txt'' [] = (Inl OSError, [])"
proof -
  have two: "ex_files ''two.txt'' = Some two_lines"
    and three: "ex_files ''three.txt'' = Some three_lines"
    and none: "ex_files ''none.txt'' = None"
    by (simp_all add: ex_files_def)
  have r2: "readlines two_lines = ['' user'' @ [CHR 0x0A], ''pass'' @ [CHR 0x0A]]"
    by (simp add: two_lines_def)
  have r3: "length (readlines three_lines) \<noteq> 2"
    by (simp add: three_lines_def)
  have s1: "strip ('' user'' @ [CHR 0x0A]) = ''user''" and s2: "strip (''pass'' @ [CHR 0x0A]) = ''pass''"
    by (simp_all add: strip_def isspace_def)
  have l: "login ex_web ''user'' ''pass'' [] =
      (Inr (), [(LOGIN_URL, [(''email'', ''user''), (''password'', ''pass'')])])"
    by (simp add: login_def ex_web_def raise_for_status_def)
  show ?thesis
    using credentials_exactly_two_lines [of ex_files "''two.txt''" ex_web "[]"] credentials_exactly_two_lines [of ex_files "''three.txt''" ex_web "[]"]
      credentials_exactly_two_lines [of ex_files "''none.txt''" ex_web "[]"] two three none r2 r3 s1 s2 l
    by simp
qed

text \<open>
  Claim C5. When the request succeeds (no exception, a status outside 400 to 599) and
  the body parses to a record that has \<^verbatim>\<open>subject.id\<close>, the method raises \<^verbatim>\<open>RuntimeError\<close>
  (the specification's consistency error) and returns no record exactly when that id
  differs from the requested patient id, and returns the record as parsed when they are
  equal.
\<close>

theorem get_phenopacket_consistency:
  assumes "session_get web (EXPORT_PHENOPACKET_BY_ID_URL patient_id) s = (Inr resp, s')"
    and "status_code resp < 400 \<or> 600 \<le> status_code resp"
    and "json resp = Inr patient_data"
    and "subject patient_data = Some sj" and "subject_id sj = Some sid"
  shows "(sid \<noteq> patient_id \<longrightarrow> get_phenopacket web patient_id s = (Inl RuntimeError, s'))
       \<and> (sid = patient_id \<longrightarrow> get_phenopacket web patient_id s = (Inr patient_data, s'))
       \<and> (fst (get_phenopacket web patient_id s) = Inl RuntimeError \<longleftrightarrow> sid \<noteq> patient_id)"
  using assms
  by (auto simp: get_phenopacket_def raise_for_status_def sams_entry_def)

theorem get_phenopacket_consistency_witness:
  "get_phenopacket ex_web ''p1'' [] = (Inr ex_packet, [])
 \<and> get_phenopacket ex_web ''other'' [] = (Inl RuntimeError, [])"
proof -
  have g: "session_get ex_web (EXPORT_PHENOPACKET_BY_ID_URL pid) [] =
      (Inr \<lparr>status_code = 200, json = Inr ex_packet\<rparr>, [])" for pid
    by (simp add: ex_web_def)
  have st: "status_code \<lparr>status_code = 200, json = Inr ex_packet\<rparr> < 400
      \<or> 600 \<le> status_code \<lparr>status_code = 200, json = Inr ex_packet\<rparr>"
    by simp
  have j: "json \<lparr>status_code = 200, json = Inr ex_packet\<rparr> = Inr ex_packet" by simp
  have sj: "subject ex_packet = Some \<lparr>subject_id = Some ''p1''\<rparr>" by (simp add: ex_packet_def)
  have sid: "subject_id \<lparr>subject_id = Some ''p1''\<rparr> = Some ''p1''" by simp
  show ?thesis
    using get_phenopacket_consistency [OF g st j sj sid, of "''p1''"] get_phenopacket_consistency [OF g st j sj sid, of "''other''"] by simp
qed

end
